theory Spec2Isabelle
  imports Main "HOL-Library.Word"
begin

section \<open>JavaScript strings\<close>

text \<open>
  A JavaScript string is a sequence of 16-bit UTF-16 code units. String equality
  (\<^verbatim>\<open>!==\<close>, \<^verbatim>\<open>Array.prototype.includes\<close> on strings) compares code units, and a
  string is falsy exactly when it has no code unit. \<open>js\<close> embeds an ASCII literal of
  the source.
\<close>

type_synonym code_unit = "16 word"

type_synonym js_string = "code_unit list"

definition js :: "string \<Rightarrow> js_string" where
  "js s = map of_char s"

text \<open>
  \<^verbatim>\<open>String.prototype.trim\<close> removes, at both ends, the code points of the ECMAScript
  productions WhiteSpace (TAB, VT, FF, ZWNBSP and the category Zs) and LineTerminator.
  All of them lie in the Basic Multilingual Plane, so each is one code unit.
\<close>

definition isWhiteSpace :: "code_unit \<Rightarrow> bool" where
  "isWhiteSpace c =
     (c = 0x0009 \<or> c = 0x000B \<or> c = 0x000C \<or> c = 0xFEFF \<or>
      c = 0x0020 \<or> c = 0x00A0 \<or> c = 0x1680 \<or> (0x2000 \<le> c \<and> c \<le> 0x200A) \<or>
      c = 0x202F \<or> c = 0x205F \<or> c = 0x3000)"

definition isLineTerminator :: "code_unit \<Rightarrow> bool" where
  "isLineTerminator c = (c = 0x000A \<or> c = 0x000D \<or> c = 0x2028 \<or> c = 0x2029)"

definition isTrimmed :: "code_unit \<Rightarrow> bool" where
  "isTrimmed c = (isWhiteSpace c \<or> isLineTerminator c)"

definition trim :: "js_string \<Rightarrow> js_string" where
  "trim s = rev (dropWhile isTrimmed (rev (dropWhile isTrimmed s)))"

text \<open>\<^verbatim>\<open>Array.prototype.includes\<close> and \<^verbatim>\<open>Array.prototype.join\<close> on arrays of strings.\<close>

definition array_includes :: "js_string list \<Rightarrow> js_string \<Rightarrow> bool" where
  "array_includes xs x = (x \<in> set xs)"

fun join :: "js_string \<Rightarrow> js_string list \<Rightarrow> js_string" where
  "join sep [] = []"
| "join sep [x] = x"
| "join sep (x # y # ys) = x @ sep @ join sep (y # ys)"


section \<open>Objects and \<^verbatim>\<open>JSON.stringify\<close>\<close>

text \<open>
  The values that occur in the request payload: strings, the question count, the array
  of skills that the spread copies before it is overwritten, and \<^verbatim>\<open>undefined\<close>.
  An object is the list of its own properties in creation order. The question count is
  typed \<^verbatim>\<open>3 | 5 | 10 | 15 | 20\<close>; it is modelled as an integer.
\<close>

datatype js_value = Undefined | Str js_string | Num int | StrArray "js_string list"

type_synonym js_object = "(js_string \<times> js_value) list"

text \<open>
  A property definition in an object literal: an existing key keeps its position and
  takes the new value, a new key is added last.
\<close>

fun set_prop :: "js_object \<Rightarrow> js_string \<Rightarrow> js_value \<Rightarrow> js_object" where
  "set_prop [] k v = [(k, v)]"
| "set_prop ((k', v') # ps) k v =
     (if k' = k then (k, v) # ps else (k', v') # set_prop ps k v)"

text \<open>\<^verbatim>\<open>Number::toString\<close> on an integer (below the exponent notation threshold).\<close>

fun digits :: "nat \<Rightarrow> js_string" where
  "digits n =
     (if n < 10 then [of_nat (48 + n)]
      else digits (n div 10) @ [of_nat (48 + n mod 10)])"

declare digits.simps [simp del]

definition Number_toString :: "int \<Rightarrow> js_string" where
  "Number_toString n = (if n < 0 then 0x2D # digits (nat (- n)) else digits (nat n))"

text \<open>
  QuoteJSONString: the two-character escapes, \<^verbatim>\<open>\uXXXX\<close> (lower-case hexadecimal) for
  the other control characters and for unpaired surrogates, everything else as it is.
\<close>

definition hex_digit :: "nat \<Rightarrow> code_unit" where
  "hex_digit n = (if n < 10 then of_nat (48 + n) else of_nat (87 + n))"

definition unicode_escape :: "code_unit \<Rightarrow> js_string" where
  "unicode_escape c =
     (let n = unat c
      in [0x5C, 0x75, hex_digit (n div 4096 mod 16), hex_digit (n div 256 mod 16),
          hex_digit (n div 16 mod 16), hex_digit (n mod 16)])"

definition escape_unit :: "code_unit \<Rightarrow> js_string" where
  "escape_unit c =
     (if c = 0x08 then [0x5C, 0x62]
      else if c = 0x09 then [0x5C, 0x74]
      else if c = 0x0A then [0x5C, 0x6E]
      else if c = 0x0C then [0x5C, 0x66]
      else if c = 0x0D then [0x5C, 0x72]
      else if c = 0x22 then [0x5C, 0x22]
      else if c = 0x5C then [0x5C, 0x5C]
      else if c < 0x20 then unicode_escape c
      else [c])"

definition isLeadingSurrogate :: "code_unit \<Rightarrow> bool" where
  "isLeadingSurrogate c = (0xD800 \<le> c \<and> c \<le> 0xDBFF)"

definition isTrailingSurrogate :: "code_unit \<Rightarrow> bool" where
  "isTrailingSurrogate c = (0xDC00 \<le> c \<and> c \<le> 0xDFFF)"

fun quote_units :: "js_string \<Rightarrow> js_string" where
  "quote_units [] = []"
| "quote_units [c] =
     (if isLeadingSurrogate c \<or> isTrailingSurrogate c then unicode_escape c
      else escape_unit c)"
| "quote_units (c # d # ds) =
     (if isLeadingSurrogate c \<and> isTrailingSurrogate d then c # d # quote_units ds
      else if isLeadingSurrogate c \<or> isTrailingSurrogate c
        then unicode_escape c @ quote_units (d # ds)
      else escape_unit c @ quote_units (d # ds))"

definition QuoteJSONString :: "js_string \<Rightarrow> js_string" where
  "QuoteJSONString s = 0x22 # quote_units s @ [0x22]"

text \<open>
  SerializeJSONProperty yields no text for \<^verbatim>\<open>undefined\<close>; SerializeJSONObject then
  leaves the property out, and separates the remaining members by commas.
\<close>

fun SerializeJSONProperty :: "js_value \<Rightarrow> js_string option" where
  "SerializeJSONProperty Undefined = None"
| "SerializeJSONProperty (Str s) = Some (QuoteJSONString s)"
| "SerializeJSONProperty (Num n) = Some (Number_toString n)"
| "SerializeJSONProperty (StrArray xs) =
     Some (0x5B # join [0x2C] (map QuoteJSONString xs) @ [0x5D])"

fun members :: "js_object \<Rightarrow> js_string list" where
  "members [] = []"
| "members ((k, v) # ps) =
     (case SerializeJSONProperty v of
        None \<Rightarrow> members ps
      | Some str \<Rightarrow> (QuoteJSONString k @ [0x3A] @ str) # members ps)"

definition JSON_stringify :: "js_object \<Rightarrow> js_string" where
  "JSON_stringify obj = 0x7B # join [0x2C] (members obj) @ [0x7D]"


section \<open>The draft and its schema\<close>

record draft =
  type :: js_string
  role :: js_string
  level :: js_string
  specialtySkills :: "js_string list"
  amount :: int

text \<open>
  The issues a zod parse reports: the path of the offending value, the issue code, and
  the message where the schema gives one (\<open>None\<close> stands for the library's default
  text). Values are typed as the schema's inferred type, so the type checks of
  \<^verbatim>\<open>z.string()\<close> and \<^verbatim>\<open>z.array()\<close> cannot fail and are not modelled.
\<close>

datatype path =
  type_path | role_path | level_path | specialtySkills_path | specialtySkills_at nat
  | amount_path

datatype issue_code = too_small | invalid_union

datatype issue = Issue path issue_code "js_string option"

text \<open>\<^verbatim>\<open>z.string().min(1, { message })\<close>: the length is compared, nothing is trimmed.\<close>

definition string_min :: "nat \<Rightarrow> js_string option \<Rightarrow> path \<Rightarrow> js_string \<Rightarrow> issue list" where
  "string_min n msg p s = (if length s < n then [Issue p too_small msg] else [])"

text \<open>\<^verbatim>\<open>z.array(z.string().min(1)).min(1, { message })\<close>: the length, then every element.\<close>

definition array_min ::
  "nat \<Rightarrow> js_string option \<Rightarrow> js_string list \<Rightarrow> issue list" where
  "array_min n msg xs =
     (if length xs < n then [Issue specialtySkills_path too_small msg] else []) @
     concat (map (\<lambda>(i, s). string_min 1 None (specialtySkills_at i) s) (enumerate 0 xs))"

text \<open>\<^verbatim>\<open>z.union([z.literal(3), ...])\<close>: some literal has to be the value.\<close>

definition amountLiterals :: "int list" where
  "amountLiterals = [3, 5, 10, 15, 20]"

definition literal_union :: "int list \<Rightarrow> int \<Rightarrow> issue list" where
  "literal_union lits x =
     (if list_ex (\<lambda>l. x = l) lits then [] else [Issue amount_path invalid_union None])"

definition required_message :: js_string where
  "required_message = js ''This field is required.''"

definition skills_message :: js_string where
  "skills_message = js ''Please add at least one skill.''"

definition issues :: "draft \<Rightarrow> issue list" where
  "issues d =
     string_min 1 (Some required_message) type_path (type d) @
     string_min 1 (Some required_message) role_path (role d) @
     string_min 1 (Some required_message) level_path (level d) @
     array_min 1 (Some skills_message) (specialtySkills d) @
     literal_union amountLiterals (amount d)"

text \<open>The parse of \<open>formSchema\<close>: the issues, or the value when there is none.\<close>

definition formSchema :: "draft \<Rightarrow> issue list + draft" where
  "formSchema d = (case issues d of [] \<Rightarrow> Inr d | i # is \<Rightarrow> Inl (i # is))"

definition defaultValues :: draft where
  "defaultValues =
     \<lparr>type = [], role = [], level = [], specialtySkills = [], amount = 5\<rparr>"


section \<open>The component\<close>

text \<open>
  The state of a mounted \<open>CreateForm\<close>: the values and the field errors held by the
  form library, the staging text \<open>skillInput\<close>, and the trace of the calls the component
  has made on its collaborators (\<^verbatim>\<open>fetch\<close>, \<^verbatim>\<open>console.error\<close>, \<^verbatim>\<open>router.refresh\<close>).
\<close>

record request =
  url :: js_string
  http_method :: js_string
  headers :: "(js_string \<times> js_string) list"
  body :: js_string

text \<open>What \<^verbatim>\<open>catch (err)\<close> can receive: the \<open>Error\<close> the handler throws, or the reason
  a rejected \<^verbatim>\<open>fetch\<close> promise carries.\<close>

datatype thrown = Error js_string | Rejection js_string

record response =
  status :: nat

definition ok :: "response \<Rightarrow> bool" where
  "ok r = (200 \<le> status r \<and> status r \<le> 299)"

datatype fetch_result = Resolved response | Rejected js_string

datatype effect = Fetch request | ConsoleError thrown | RouterRefresh

record component =
  formValues :: draft
  formErrors :: "issue list"
  skillInput :: js_string
  effects :: "effect list"

definition mount :: component where
  "mount = \<lparr>formValues = defaultValues, formErrors = [], skillInput = [], effects = []\<rparr>"

record user =
  user_id :: js_string

subsection \<open>The skill list editor\<close>

definition handleAddSkill :: "component \<Rightarrow> component" where
  "handleAddSkill st =
     (let skill = trim (skillInput st)
      in if skill \<noteq> [] \<and> \<not> array_includes (specialtySkills (formValues st)) skill
         then st\<lparr>formValues :=
                    (formValues st)\<lparr>specialtySkills :=
                       specialtySkills (formValues st) @ [skill]\<rparr>,
                 skillInput := []\<rparr>
         else st)"

definition handleRemoveSkill :: "js_string \<Rightarrow> component \<Rightarrow> component" where
  "handleRemoveSkill skill st =
     st\<lparr>formValues :=
          (formValues st)\<lparr>specialtySkills :=
             filter (\<lambda>s. s \<noteq> skill) (specialtySkills (formValues st))\<rparr>\<rparr>"

subsection \<open>Submission\<close>

text \<open>The object literal passed to \<^verbatim>\<open>JSON.stringify\<close>: the spread of the values, then
  the two property definitions, in the order of the source.\<close>

definition spread :: "draft \<Rightarrow> js_object" where
  "spread values =
     [(js ''type'', Str (type values)),
      (js ''role'', Str (role values)),
      (js ''level'', Str (level values)),
      (js ''specialtySkills'', StrArray (specialtySkills values)),
      (js ''amount'', Num (amount values))]"

definition optional_id :: "user option \<Rightarrow> js_value" where
  "optional_id u = (case u of None \<Rightarrow> Undefined | Some x \<Rightarrow> Str (user_id x))"

definition payload :: "user option \<Rightarrow> draft \<Rightarrow> js_object" where
  "payload u values =
     set_prop
       (set_prop (spread values) (js ''specialtySkills'')
          (Str (join (js '', '') (specialtySkills values))))
       (js ''userid'') (optional_id u)"

definition generate_request :: "user option \<Rightarrow> draft \<Rightarrow> request" where
  "generate_request u values =
     \<lparr>url = js ''/api/vapi/generate'', http_method = js ''POST'',
      headers = [(js ''Content-Type'', js ''application/json'')],
      body = JSON_stringify (payload u values)\<rparr>"

definition emit :: "effect \<Rightarrow> component \<Rightarrow> component" where
  "emit e st = st\<lparr>effects := effects st @ [e]\<rparr>"

text \<open>
  Modelled from the spec: \<^verbatim>\<open>form.reset()\<close> of the form library, which is not under src/
  ("reset the draft to its default values"). It restores \<open>defaultValues\<close> and, as the
  library does by default, clears the field errors; the staging text is separate
  component state and is not touched.
\<close>

definition form_reset :: "component \<Rightarrow> component" where
  "form_reset st = st\<lparr>formValues := defaultValues, formErrors := []\<rparr>"

text \<open>
  \<open>onSubmit\<close>: the request is issued; a rejected promise and a response that is not
  \<open>ok\<close> both end in the \<^verbatim>\<open>catch\<close> block, which only logs; otherwise the form is reset
  and the router refreshed. The network is the parameter \<open>fetch\<close>.
\<close>

definition onSubmit ::
  "(request \<Rightarrow> fetch_result) \<Rightarrow> user option \<Rightarrow> draft \<Rightarrow> component \<Rightarrow> component" where
  "onSubmit fetch u values st =
     (let req = generate_request u values;
          st1 = emit (Fetch req) st
      in case fetch req of
           Rejected reason \<Rightarrow> emit (ConsoleError (Rejection reason)) st1
         | Resolved response \<Rightarrow>
             if \<not> ok response
             then emit (ConsoleError (Error (js ''Submission failed''))) st1
             else emit RouterRefresh (form_reset st1))"

text \<open>
  Modelled from the spec: \<^verbatim>\<open>form.handleSubmit(onSubmit)\<close> with the zod resolver, of the
  form library, which is not under src/ ("Validate draft against the schema; if invalid,
  submission is blocked and per-field messages are shown (no network call issued)").
  An invalid draft stores the issues as field errors and the handler is not called; a
  valid one clears the field errors and calls the handler with the parsed values.
\<close>

definition handleSubmit ::
  "(request \<Rightarrow> fetch_result) \<Rightarrow> user option \<Rightarrow> component \<Rightarrow> component" where
  "handleSubmit fetch u st =
     (case formSchema (formValues st) of
        Inl errs \<Rightarrow> st\<lparr>formErrors := errs\<rparr>
      | Inr values \<Rightarrow> onSubmit fetch u values (st\<lparr>formErrors := []\<rparr>))"

subsection \<open>The controls\<close>

text \<open>
  The events the rendered form offers. A select offers only its items; the question
  count select renders one item per element of \<open>amountOptions\<close> with the value
  \<^verbatim>\<open>String(opt)\<close> and stores \<^verbatim>\<open>Number(val)\<close>, which is \<open>opt\<close> again for these
  integers, so the event carries \<open>opt\<close>. The Add button is disabled while the trimmed
  staging text is empty; the Enter key is not. A remove button is rendered for each
  element of the committed list and passes that element. \<open>Submit\<close> carries what the environment supplies: the current
  user and the outcome of the request.
\<close>

definition typeOptions :: "js_string list" where
  "typeOptions = [js ''technical'', js ''behavioral'', js ''mixed'']"

definition levelOptions :: "js_string list" where
  "levelOptions = [js ''entry'', js ''mid'', js ''senior'', js ''staff'', js ''manager'']"

definition amountOptions :: "int list" where
  "amountOptions = [3, 5, 10, 15, 20]"

datatype event =
  SelectType js_string
  | ChangeRole js_string
  | SelectLevel js_string
  | ChangeSkillInput js_string
  | PressEnter
  | ClickAdd
  | ClickRemove js_string
  | SelectAmount int
  | Submit "user option" fetch_result

fun enabled :: "event \<Rightarrow> component \<Rightarrow> bool" where
  "enabled (SelectType v) st = (v \<in> set typeOptions)"
| "enabled (SelectLevel v) st = (v \<in> set levelOptions)"
| "enabled (SelectAmount opt) st = (opt \<in> set amountOptions)"
| "enabled ClickAdd st = (trim (skillInput st) \<noteq> [])"
| "enabled (ClickRemove skill) st = (skill \<in> set (specialtySkills (formValues st)))"
| "enabled e st = True"

fun fire :: "event \<Rightarrow> component \<Rightarrow> component" where
  "fire (SelectType v) st = st\<lparr>formValues := (formValues st)\<lparr>type := v\<rparr>\<rparr>"
| "fire (ChangeRole v) st = st\<lparr>formValues := (formValues st)\<lparr>role := v\<rparr>\<rparr>"
| "fire (SelectLevel v) st = st\<lparr>formValues := (formValues st)\<lparr>level := v\<rparr>\<rparr>"
| "fire (ChangeSkillInput v) st = st\<lparr>skillInput := v\<rparr>"
| "fire PressEnter st = handleAddSkill st"
| "fire ClickAdd st = handleAddSkill st"
| "fire (ClickRemove skill) st = handleRemoveSkill skill st"
| "fire (SelectAmount opt) st = st\<lparr>formValues := (formValues st)\<lparr>amount := opt\<rparr>\<rparr>"
| "fire (Submit u r) st = handleSubmit (\<lambda>req. r) u st"

fun run :: "event list \<Rightarrow> component \<Rightarrow> component option" where
  "run [] st = Some st"
| "run (e # es) st = (if enabled e st then run es (fire e st) else None)"

abbreviation skills :: "component \<Rightarrow> js_string list" where
  "skills st \<equiv> specialtySkills (formValues st)"

definition invariant :: "component \<Rightarrow> bool" where
  "invariant st =
     ([] \<notin> set (specialtySkills (formValues st)) \<and>
      distinct (specialtySkills (formValues st)) \<and>
      amount (formValues st) \<in> {3, 5, 10, 15, 20})"


section \<open>Properties\<close>

lemma trim_blank:
  assumes "\<forall>c \<in> set s. isTrimmed c"
  shows "trim s = []"
  using assms by (auto simp: trim_def dest: set_dropWhileD)

subsection \<open>The request payload and its serialization\<close>

lemma js_keys [simp]:
  "js ''type'' \<noteq> js ''specialtySkills''"
  "js ''role'' \<noteq> js ''specialtySkills''"
  "js ''level'' \<noteq> js ''specialtySkills''"
  "js ''type'' \<noteq> js ''userid''"
  "js ''role'' \<noteq> js ''userid''"
  "js ''level'' \<noteq> js ''userid''"
  "js ''specialtySkills'' \<noteq> js ''userid''"
  "js ''amount'' \<noteq> js ''userid''"
  by (simp_all add: js_def)

lemma payload_props:
  "payload u d =
     [(js ''type'', Str (type d)), (js ''role'', Str (role d)), (js ''level'', Str (level d)),
      (js ''specialtySkills'', Str (join (js '', '') (specialtySkills d))),
      (js ''amount'', Num (amount d)), (js ''userid'', optional_id u)]"
  by (simp add: payload_def spread_def)

lemma quote_key:
  \<open>QuoteJSONString (js ''type'') = js ''"type"''\<close>
  \<open>QuoteJSONString (js ''role'') = js ''"role"''\<close>
  \<open>QuoteJSONString (js ''level'') = js ''"level"''\<close>
  \<open>QuoteJSONString (js ''specialtySkills'') = js ''"specialtySkills"''\<close>
  \<open>QuoteJSONString (js ''amount'') = js ''"amount"''\<close>
  \<open>QuoteJSONString (js ''userid'') = js ''"userid"''\<close>
  by (simp_all add: QuoteJSONString_def js_def escape_unit_def isLeadingSurrogate_def
      isTrailingSurrogate_def)

lemma body_with_user:
  \<open>JSON_stringify (payload (Some usr) d) =
     js ''{"type":'' @ QuoteJSONString (type d) @
     js '',"role":'' @ QuoteJSONString (role d) @
     js '',"level":'' @ QuoteJSONString (level d) @
     js '',"specialtySkills":'' @ QuoteJSONString (join (js '', '') (specialtySkills d)) @
     js '',"amount":'' @ Number_toString (amount d) @
     js '',"userid":'' @ QuoteJSONString (user_id usr) @ js ''}''\<close>
  by (simp add: payload_props JSON_stringify_def optional_id_def quote_key) (simp add: js_def)

lemma scenario_A:
  \<open>JSON_stringify (payload (Some \<lparr>user_id = js ''u_123''\<rparr>)
      \<lparr>type = js ''technical'', role = js ''Frontend Engineer'', level = js ''mid'',
       specialtySkills = [js ''React'', js ''CSS''], amount = 5\<rparr>) =
   js ''{"type":"technical","role":"Frontend Engineer","level":"mid","specialtySkills":"React, CSS","amount":5,"userid":"u_123"}''\<close>
  by (simp add: payload_props JSON_stringify_def optional_id_def QuoteJSONString_def js_def
      escape_unit_def isLeadingSurrogate_def isTrailingSurrogate_def Number_toString_def
      digits.simps)

subsection \<open>Submission\<close>

lemma onSubmit_effects:
  "effects (onSubmit fetch u v st) =
     effects st @
     [Fetch (generate_request u v),
      (case fetch (generate_request u v) of
         Rejected reason \<Rightarrow> ConsoleError (Rejection reason)
       | Resolved r \<Rightarrow>
           if ok r then RouterRefresh else ConsoleError (Error (js ''Submission failed'')))]"
  by (simp add: onSubmit_def Let_def emit_def form_reset_def split: fetch_result.splits)

lemma formSchema_valid: "issues d = [] \<Longrightarrow> formSchema d = Inr d"
  by (simp add: formSchema_def)

lemma formSchema_invalid: "issues d \<noteq> [] \<Longrightarrow> formSchema d = Inl (issues d)"
  by (cases "issues d") (simp_all add: formSchema_def)

lemma handleSubmit_blocked:
  "issues (formValues st) \<noteq> [] \<Longrightarrow>
     handleSubmit fetch u st = st\<lparr>formErrors := issues (formValues st)\<rparr>"
  by (simp add: handleSubmit_def formSchema_invalid)

lemma handleSubmit_valid:
  "issues (formValues st) = [] \<Longrightarrow>
     handleSubmit fetch u st = onSubmit fetch u (formValues st) (st\<lparr>formErrors := []\<rparr>)"
  by (simp add: handleSubmit_def formSchema_valid)

lemma issues_scenario_A:
  "issues \<lparr>type = js ''technical'', role = js ''Frontend Engineer'', level = js ''mid'',
       specialtySkills = [js ''React'', js ''CSS''], amount = 5\<rparr> = []"
  by (simp add: issues_def string_min_def array_min_def literal_union_def amountLiterals_def
      js_def enumerate_eq_zip)

text \<open>
  Claim C1. For every valid draft, the submit handler issues, as its first call, the
  request whose body is the JSON text of the draft's fields, with \<open>specialtySkills\<close>
  replaced by its elements joined with a comma and a space, followed by \<open>userid\<close>, the
  current user's identifier. For the draft technical / Frontend Engineer / mid /
  [React, CSS] / 5 and the user \<open>u_123\<close> the body is the text the specification gives.
\<close>

theorem submit_request_body:
  assumes "issues (formValues st) = []"
  shows \<open>butlast (effects (handleSubmit fetch u st)) =
           effects st @ [Fetch (generate_request u (formValues st))]
         \<and> payload u (formValues st) =
             [(js ''type'', Str (type (formValues st))),
              (js ''role'', Str (role (formValues st))),
              (js ''level'', Str (level (formValues st))),
              (js ''specialtySkills'', Str (join (js '', '') (skills st))),
              (js ''amount'', Num (amount (formValues st))),
              (js ''userid'', optional_id u)]
         \<and> body (generate_request (Some usr) (formValues st)) =
             js ''{"type":'' @ QuoteJSONString (type (formValues st)) @
             js '',"role":'' @ QuoteJSONString (role (formValues st)) @
             js '',"level":'' @ QuoteJSONString (level (formValues st)) @
             js '',"specialtySkills":'' @ QuoteJSONString (join (js '', '') (skills st)) @
             js '',"amount":'' @ Number_toString (amount (formValues st)) @
             js '',"userid":'' @ QuoteJSONString (user_id usr) @ js ''}''
         \<and> body (generate_request (Some \<lparr>user_id = js ''u_123''\<rparr>)
               \<lparr>type = js ''technical'', role = js ''Frontend Engineer'', level = js ''mid'',
                specialtySkills = [js ''React'', js ''CSS''], amount = 5\<rparr>) =
             js ''{"type":"technical","role":"Frontend Engineer","level":"mid","specialtySkills":"React, CSS","amount":5,"userid":"u_123"}''\<close>
proof -
  have "butlast (effects (handleSubmit fetch u st)) =
          effects st @ [Fetch (generate_request u (formValues st))]"
    using assms by (simp add: handleSubmit_valid onSubmit_effects butlast_append)
  moreover note payload_props [of u "formValues st"]
  moreover have \<open>body (generate_request (Some usr) (formValues st)) =
             js ''{"type":'' @ QuoteJSONString (type (formValues st)) @
             js '',"role":'' @ QuoteJSONString (role (formValues st)) @
             js '',"level":'' @ QuoteJSONString (level (formValues st)) @
             js '',"specialtySkills":'' @ QuoteJSONString (join (js '', '') (skills st)) @
             js '',"amount":'' @ Number_toString (amount (formValues st)) @
             js '',"userid":'' @ QuoteJSONString (user_id usr) @ js ''}''\<close>
    by (simp add: generate_request_def body_with_user)
  moreover have \<open>body (generate_request (Some \<lparr>user_id = js ''u_123''\<rparr>)
               \<lparr>type = js ''technical'', role = js ''Frontend Engineer'', level = js ''mid'',
                specialtySkills = [js ''React'', js ''CSS''], amount = 5\<rparr>) =
             js ''{"type":"technical","role":"Frontend Engineer","level":"mid","specialtySkills":"React, CSS","amount":5,"userid":"u_123"}''\<close>
    by (simp add: generate_request_def scenario_A)
  ultimately show ?thesis by blast
qed

theorem submit_request_body_witness:
  \<open>issues \<lparr>type = js ''technical'', role = js ''Frontend Engineer'', level = js ''mid'',
       specialtySkills = [js ''React'', js ''CSS''], amount = 5\<rparr> = []
   \<and> butlast (effects (handleSubmit (\<lambda>req. Resolved \<lparr>status = 200\<rparr>)
         (Some \<lparr>user_id = js ''u_123''\<rparr>)
         (mount\<lparr>formValues :=
            \<lparr>type = js ''technical'', role = js ''Frontend Engineer'', level = js ''mid'',
             specialtySkills = [js ''React'', js ''CSS''], amount = 5\<rparr>\<rparr>))) =
       [Fetch \<lparr>url = js ''/api/vapi/generate'', http_method = js ''POST'',
          headers = [(js ''Content-Type'', js ''application/json'')],
          body = js ''{"type":"technical","role":"Frontend Engineer","level":"mid","specialtySkills":"React, CSS","amount":5,"userid":"u_123"}''\<rparr>]\<close>
proof -
  let ?A = "\<lparr>type = js ''technical'', role = js ''Frontend Engineer'', level = js ''mid'',
             specialtySkills = [js ''React'', js ''CSS''], amount = 5\<rparr>"
  let ?st = "mount\<lparr>formValues := ?A\<rparr>"
  have h: "issues (formValues ?st) = []"
    by (simp add: issues_scenario_A)
  note t = submit_request_body [OF h, of "\<lambda>req. Resolved \<lparr>status = 200\<rparr>"
      "Some \<lparr>user_id = js ''u_123''\<rparr>" "\<lparr>user_id = js ''u_123''\<rparr>"]
  from t have sent: "butlast (effects (handleSubmit (\<lambda>req. Resolved \<lparr>status = 200\<rparr>)
         (Some \<lparr>user_id = js ''u_123''\<rparr>) ?st)) =
       effects ?st @ [Fetch (generate_request (Some \<lparr>user_id = js ''u_123''\<rparr>) ?A)]"
    by simp
  from t have sent_body: \<open>body (generate_request (Some \<lparr>user_id = js ''u_123''\<rparr>) ?A) =
      js ''{"type":"technical","role":"Frontend Engineer","level":"mid","specialtySkills":"React, CSS","amount":5,"userid":"u_123"}''\<close>
    by blast
  show ?thesis
    using h sent sent_body by (simp add: generate_request_def mount_def)
qed

subsection \<open>Validation blocks submission\<close>

lemma required_issue_iff:
  "Issue type_path too_small (Some required_message) \<in> set (issues d) \<longleftrightarrow> type d = []"
  "Issue role_path too_small (Some required_message) \<in> set (issues d) \<longleftrightarrow> role d = []"
  "Issue level_path too_small (Some required_message) \<in> set (issues d) \<longleftrightarrow> level d = []"
  by (auto simp: issues_def string_min_def array_min_def literal_union_def in_set_enumerate_eq
      split: if_splits)

lemma skills_issue_iff:
  "Issue specialtySkills_path too_small (Some skills_message) \<in> set (issues d) \<longleftrightarrow>
     specialtySkills d = []"
  by (auto simp: issues_def string_min_def array_min_def literal_union_def in_set_enumerate_eq
      split: if_splits)

text \<open>
  Claim C2, as amended. The schema compares lengths and trims nothing: the required-field
  issue ("This field is required.") is reported for \<open>type\<close>, \<open>role\<close> or \<open>level\<close> exactly
  when that field is the empty string. For every draft in which one of the three is
  empty, the parse fails, the submit handler is not called, the issues become the field
  errors and no request is issued.
\<close>

theorem required_fields_block_submission:
  assumes "type (formValues st) = [] \<or> role (formValues st) = [] \<or> level (formValues st) = []"
  shows "(Issue type_path too_small (Some required_message) \<in> set (issues (formValues st))
            \<longleftrightarrow> type (formValues st) = [])
       \<and> (Issue role_path too_small (Some required_message) \<in> set (issues (formValues st))
            \<longleftrightarrow> role (formValues st) = [])
       \<and> (Issue level_path too_small (Some required_message) \<in> set (issues (formValues st))
            \<longleftrightarrow> level (formValues st) = [])
       \<and> formSchema (formValues st) = Inl (issues (formValues st))
       \<and> handleSubmit fetch u st = st\<lparr>formErrors := issues (formValues st)\<rparr>
       \<and> effects (handleSubmit fetch u st) = effects st"
proof -
  from assms have "issues (formValues st) \<noteq> []"
    using required_issue_iff [of "formValues st"] by fastforce
  then show ?thesis
    by (simp add: required_issue_iff formSchema_invalid handleSubmit_blocked)
qed

theorem required_fields_block_submission_witness:
  "role (formValues (mount\<lparr>formValues :=
       \<lparr>type = js ''technical'', role = [], level = js ''mid'',
        specialtySkills = [js ''React''], amount = 5\<rparr>\<rparr>)) = []
   \<and> handleSubmit (\<lambda>req. Resolved \<lparr>status = 200\<rparr>) None
        (mount\<lparr>formValues :=
           \<lparr>type = js ''technical'', role = [], level = js ''mid'',
            specialtySkills = [js ''React''], amount = 5\<rparr>\<rparr>) =
       \<lparr>formValues =
          \<lparr>type = js ''technical'', role = [], level = js ''mid'',
           specialtySkills = [js ''React''], amount = 5\<rparr>,
        formErrors = [Issue role_path too_small (Some required_message)],
        skillInput = [], effects = []\<rparr>"
proof -
  let ?d = "\<lparr>type = js ''technical'', role = [], level = js ''mid'',
            specialtySkills = [js ''React''], amount = 5\<rparr>"
  let ?st = "mount\<lparr>formValues := ?d\<rparr>"
  have h: "type (formValues ?st) = [] \<or> role (formValues ?st) = [] \<or> level (formValues ?st) = []"
    by simp
  have i: "issues ?d = [Issue role_path too_small (Some required_message)]"
    by (simp add: issues_def string_min_def array_min_def literal_union_def amountLiterals_def
      js_def enumerate_eq_zip)
  from required_fields_block_submission [OF h, of "\<lambda>req. Resolved \<lparr>status = 200\<rparr>" None]
  have "handleSubmit (\<lambda>req. Resolved \<lparr>status = 200\<rparr>) None ?st =
          ?st\<lparr>formErrors := issues (formValues ?st)\<rparr>"
    by blast
  then show ?thesis
    by (simp add: i mount_def)
qed

text \<open>
  The claim as stated also covers blank fields. A role that is a single space has
  nothing left after trimming, yet the draft passes the schema; typed into the form and
  submitted, it is sent in the request.
\<close>

theorem blank_role_counterexample:
  \<open>trim (js '' '') = []
   \<and> formSchema \<lparr>type = js ''technical'', role = js '' '', level = js ''mid'',
       specialtySkills = [js ''React''], amount = 5\<rparr> =
      Inr \<lparr>type = js ''technical'', role = js '' '', level = js ''mid'',
       specialtySkills = [js ''React''], amount = 5\<rparr>
   \<and> run [SelectType (js ''technical''), ChangeRole (js '' ''), SelectLevel (js ''mid''),
          ChangeSkillInput (js ''React''), PressEnter,
          Submit None (Resolved \<lparr>status = 200\<rparr>)] mount =
       Some \<lparr>formValues = defaultValues, formErrors = [], skillInput = [],
          effects =
            [Fetch \<lparr>url = js ''/api/vapi/generate'', http_method = js ''POST'',
               headers = [(js ''Content-Type'', js ''application/json'')],
               body = js ''{"type":"technical","role":" ","level":"mid","specialtySkills":"React","amount":5}''\<rparr>,
             RouterRefresh]\<rparr>\<close>
proof -
  let ?d = "\<lparr>type = js ''technical'', role = js '' '', level = js ''mid'',
       specialtySkills = [js ''React''], amount = 5\<rparr>"
  let ?fetch = "\<lambda>req::request. Resolved \<lparr>status = 200\<rparr>"
  have blank: "trim (js '' '') = []"
    by (simp add: trim_def js_def isTrimmed_def isWhiteSpace_def)
  have valid: "issues ?d = []"
    by (simp add: issues_def string_min_def array_min_def literal_union_def amountLiterals_def
      js_def enumerate_eq_zip)
  have sent: \<open>JSON_stringify (payload None ?d) =
      js ''{"type":"technical","role":" ","level":"mid","specialtySkills":"React","amount":5}''\<close>
    by (simp add: payload_props JSON_stringify_def optional_id_def QuoteJSONString_def js_def
      escape_unit_def isLeadingSurrogate_def isTrailingSurrogate_def Number_toString_def
      digits.simps)
  have filled: "run [SelectType (js ''technical''), ChangeRole (js '' ''), SelectLevel (js ''mid''),
          ChangeSkillInput (js ''React''), PressEnter,
          Submit None (Resolved \<lparr>status = 200\<rparr>)] mount =
        Some (handleSubmit ?fetch None (mount\<lparr>formValues := ?d\<rparr>))"
    by (simp add: mount_def defaultValues_def handleAddSkill_def array_includes_def trim_def
        isTrimmed_def isWhiteSpace_def isLineTerminator_def typeOptions_def levelOptions_def
        js_def Let_def)
  have "handleSubmit ?fetch None (mount\<lparr>formValues := ?d\<rparr>) =
      \<lparr>formValues = defaultValues, formErrors = [], skillInput = [],
       effects = [Fetch (generate_request None ?d), RouterRefresh]\<rparr>"
    using valid
    by (simp add: handleSubmit_valid onSubmit_def Let_def emit_def form_reset_def ok_def
        mount_def)
  with blank valid sent filled show ?thesis
    by (simp add: formSchema_valid generate_request_def)
qed

text \<open>
  Claim C3. For every draft whose skill list is empty, the parse fails with the
  minimum-count issue ("Please add at least one skill."), the submit handler is not
  called, and no request (hence no request body) is produced.
\<close>

theorem empty_skills_block_submission:
  assumes "specialtySkills (formValues st) = []"
  shows "Issue specialtySkills_path too_small (Some skills_message) \<in> set (issues (formValues st))
       \<and> formSchema (formValues st) = Inl (issues (formValues st))
       \<and> handleSubmit fetch u st = st\<lparr>formErrors := issues (formValues st)\<rparr>
       \<and> effects (handleSubmit fetch u st) = effects st"
proof -
  from assms have present:
    "Issue specialtySkills_path too_small (Some skills_message) \<in> set (issues (formValues st))"
    by (simp add: skills_issue_iff)
  then have "issues (formValues st) \<noteq> []"
    by auto
  with present show ?thesis
    by (simp add: formSchema_invalid handleSubmit_blocked)
qed

theorem empty_skills_block_submission_witness:
  "handleSubmit (\<lambda>req. Resolved \<lparr>status = 200\<rparr>) (Some \<lparr>user_id = js ''u_123''\<rparr>)
        (mount\<lparr>formValues :=
           \<lparr>type = js ''technical'', role = js ''Frontend Engineer'', level = js ''mid'',
            specialtySkills = [], amount = 5\<rparr>\<rparr>) =
       \<lparr>formValues =
          \<lparr>type = js ''technical'', role = js ''Frontend Engineer'', level = js ''mid'',
           specialtySkills = [], amount = 5\<rparr>,
        formErrors = [Issue specialtySkills_path too_small (Some skills_message)],
        skillInput = [], effects = []\<rparr>"
proof -
  let ?d = "\<lparr>type = js ''technical'', role = js ''Frontend Engineer'', level = js ''mid'',
            specialtySkills = [], amount = 5\<rparr>"
  let ?st = "mount\<lparr>formValues := ?d\<rparr>"
  have h: "specialtySkills (formValues ?st) = []"
    by simp
  have i: "issues ?d = [Issue specialtySkills_path too_small (Some skills_message)]"
    by (simp add: issues_def string_min_def array_min_def literal_union_def amountLiterals_def
      js_def)
  from empty_skills_block_submission [OF h, of "\<lambda>req. Resolved \<lparr>status = 200\<rparr>"
      "Some \<lparr>user_id = js ''u_123''\<rparr>"]
  have "handleSubmit (\<lambda>req. Resolved \<lparr>status = 200\<rparr>) (Some \<lparr>user_id = js ''u_123''\<rparr>) ?st =
          ?st\<lparr>formErrors := issues (formValues ?st)\<rparr>"
    by blast
  then show ?thesis
    by (simp add: i mount_def)
qed

subsection \<open>The outcome of a submission\<close>

text \<open>
  Claim C4. If the request is rejected, or the response status is not a success status,
  the handler adds to the trace the request and one \<^verbatim>\<open>console.error\<close> entry, and
  nothing else changes: the draft, the field errors and the staging text are as they
  were. Through \<open>handleSubmit\<close> on a valid draft the field errors are empty afterwards.
\<close>

theorem failed_submission_keeps_draft:
  assumes "(\<exists>reason. fetch (generate_request u values) = Rejected reason) \<or>
           (\<exists>resp. fetch (generate_request u values) = Resolved resp \<and> \<not> ok resp)"
  shows "onSubmit fetch u values st =
           st\<lparr>effects := effects st @
              [Fetch (generate_request u values),
               ConsoleError
                 (case fetch (generate_request u values) of
                    Rejected reason \<Rightarrow> Rejection reason
                  | Resolved resp \<Rightarrow> Error (js ''Submission failed''))]\<rparr>
       \<and> formValues (onSubmit fetch u values st) = formValues st
       \<and> formErrors (onSubmit fetch u values st) = formErrors st
       \<and> skillInput (onSubmit fetch u values st) = skillInput st
       \<and> (issues (formValues st) = [] \<and> values = formValues st \<longrightarrow>
            formValues (handleSubmit fetch u st) = formValues st
          \<and> formErrors (handleSubmit fetch u st) = []
          \<and> skillInput (handleSubmit fetch u st) = skillInput st
          \<and> effects (handleSubmit fetch u st) = effects (onSubmit fetch u values st))"
proof -
  have 1: "onSubmit fetch u values st =
           st\<lparr>effects := effects st @
              [Fetch (generate_request u values),
               ConsoleError
                 (case fetch (generate_request u values) of
                    Rejected reason \<Rightarrow> Rejection reason
                  | Resolved resp \<Rightarrow> Error (js ''Submission failed''))]\<rparr>" for st
    using assms by (auto simp: onSubmit_def Let_def emit_def)
  have 2: "formValues (onSubmit fetch u values st) = formValues st
       \<and> formErrors (onSubmit fetch u values st) = formErrors st
       \<and> skillInput (onSubmit fetch u values st) = skillInput st"
    by (simp add: 1)
  have 3: "issues (formValues st) = [] \<and> values = formValues st \<longrightarrow>
            formValues (handleSubmit fetch u st) = formValues st
          \<and> formErrors (handleSubmit fetch u st) = []
          \<and> skillInput (handleSubmit fetch u st) = skillInput st
          \<and> effects (handleSubmit fetch u st) = effects (onSubmit fetch u values st)"
  proof
    assume a: "issues (formValues st) = [] \<and> values = formValues st"
    then have "handleSubmit fetch u st = onSubmit fetch u values (st\<lparr>formErrors := []\<rparr>)"
      by (simp add: handleSubmit_valid)
    then show "formValues (handleSubmit fetch u st) = formValues st
          \<and> formErrors (handleSubmit fetch u st) = []
          \<and> skillInput (handleSubmit fetch u st) = skillInput st
          \<and> effects (handleSubmit fetch u st) = effects (onSubmit fetch u values st)"
      by (simp add: 1)
  qed
  from 1 [of st] 2 3 show ?thesis
    by blast
qed

theorem failed_submission_keeps_draft_witness:
  \<open>\<not> ok \<lparr>status = 500\<rparr>
   \<and> formValues (handleSubmit (\<lambda>req. Resolved \<lparr>status = 500\<rparr>) (Some \<lparr>user_id = js ''u_123''\<rparr>)
        (mount\<lparr>formValues :=
           \<lparr>type = js ''technical'', role = js ''Frontend Engineer'', level = js ''mid'',
            specialtySkills = [js ''React'', js ''CSS''], amount = 5\<rparr>\<rparr>)) =
       \<lparr>type = js ''technical'', role = js ''Frontend Engineer'', level = js ''mid'',
        specialtySkills = [js ''React'', js ''CSS''], amount = 5\<rparr>
   \<and> formErrors (handleSubmit (\<lambda>req. Resolved \<lparr>status = 500\<rparr>) (Some \<lparr>user_id = js ''u_123''\<rparr>)
        (mount\<lparr>formValues :=
           \<lparr>type = js ''technical'', role = js ''Frontend Engineer'', level = js ''mid'',
            specialtySkills = [js ''React'', js ''CSS''], amount = 5\<rparr>\<rparr>)) = []
   \<and> effects (handleSubmit (\<lambda>req. Resolved \<lparr>status = 500\<rparr>) (Some \<lparr>user_id = js ''u_123''\<rparr>)
        (mount\<lparr>formValues :=
           \<lparr>type = js ''technical'', role = js ''Frontend Engineer'', level = js ''mid'',
            specialtySkills = [js ''React'', js ''CSS''], amount = 5\<rparr>\<rparr>)) =
       [Fetch \<lparr>url = js ''/api/vapi/generate'', http_method = js ''POST'',
          headers = [(js ''Content-Type'', js ''application/json'')],
          body = js ''{"type":"technical","role":"Frontend Engineer","level":"mid","specialtySkills":"React, CSS","amount":5,"userid":"u_123"}''\<rparr>,
        ConsoleError (Error (js ''Submission failed''))]\<close>
proof -
  let ?A = "\<lparr>type = js ''technical'', role = js ''Frontend Engineer'', level = js ''mid'',
             specialtySkills = [js ''React'', js ''CSS''], amount = 5\<rparr>"
  let ?st = "mount\<lparr>formValues := ?A\<rparr>"
  let ?u = "Some \<lparr>user_id = js ''u_123''\<rparr>"
  let ?fetch = "\<lambda>req::request. Resolved \<lparr>status = 500\<rparr>"
  have bad: "\<not> ok \<lparr>status = 500\<rparr>"
    by (simp add: ok_def)
  then have h: "(\<exists>reason. ?fetch (generate_request ?u ?A) = Rejected reason) \<or>
           (\<exists>resp. ?fetch (generate_request ?u ?A) = Resolved resp \<and> \<not> ok resp)"
    by simp
  have v: "issues (formValues ?st) = [] \<and> ?A = formValues ?st"
    by (simp add: issues_scenario_A)
  note t = failed_submission_keeps_draft [OF h, where st = "?st"]
  from t v have "formValues (handleSubmit ?fetch ?u ?st) = formValues ?st
      \<and> formErrors (handleSubmit ?fetch ?u ?st) = []
      \<and> effects (handleSubmit ?fetch ?u ?st) =
          effects ?st @ [Fetch (generate_request ?u ?A), ConsoleError (Error (js ''Submission failed''))]"
    by simp
  then show ?thesis
    using bad by (simp add: generate_request_def scenario_A mount_def)
qed

text \<open>
  Claim C5. If the response status is a success status, the draft is reset to the default
  values (empty type, role and level, no skill, five questions), the field errors are
  cleared, and the only calls made are the request and \<^verbatim>\<open>router.refresh()\<close>.
\<close>

theorem successful_submission_resets:
  assumes "fetch (generate_request u values) = Resolved resp" and "ok resp"
  shows "onSubmit fetch u values st =
           st\<lparr>formValues := \<lparr>type = [], role = [], level = [], specialtySkills = [], amount = 5\<rparr>,
              formErrors := [],
              effects := effects st @ [Fetch (generate_request u values), RouterRefresh]\<rparr>
       \<and> formValues (onSubmit fetch u values st) = defaultValues
       \<and> (issues (formValues st) = [] \<and> values = formValues st \<longrightarrow>
            handleSubmit fetch u st = onSubmit fetch u values st)"
proof -
  have 1: "onSubmit fetch u values st =
           st\<lparr>formValues := defaultValues, formErrors := [],
              effects := effects st @ [Fetch (generate_request u values), RouterRefresh]\<rparr>" for st
    using assms by (simp add: onSubmit_def Let_def emit_def form_reset_def)
  have 2: "issues (formValues st) = [] \<and> values = formValues st \<longrightarrow>
            handleSubmit fetch u st = onSubmit fetch u values st"
  proof
    assume a: "issues (formValues st) = [] \<and> values = formValues st"
    then have "handleSubmit fetch u st = onSubmit fetch u values (st\<lparr>formErrors := []\<rparr>)"
      by (simp add: handleSubmit_valid)
    then show "handleSubmit fetch u st = onSubmit fetch u values st"
      by (simp add: 1)
  qed
  from 1 [of st] 2 show ?thesis
    by (simp add: defaultValues_def)
qed

theorem successful_submission_resets_witness:
  \<open>ok \<lparr>status = 200\<rparr>
   \<and> handleSubmit (\<lambda>req. Resolved \<lparr>status = 200\<rparr>) (Some \<lparr>user_id = js ''u_123''\<rparr>)
        (mount\<lparr>formValues :=
           \<lparr>type = js ''technical'', role = js ''Frontend Engineer'', level = js ''mid'',
            specialtySkills = [js ''React'', js ''CSS''], amount = 5\<rparr>\<rparr>) =
       \<lparr>formValues = \<lparr>type = [], role = [], level = [], specialtySkills = [], amount = 5\<rparr>,
        formErrors = [], skillInput = [],
        effects =
          [Fetch \<lparr>url = js ''/api/vapi/generate'', http_method = js ''POST'',
             headers = [(js ''Content-Type'', js ''application/json'')],
             body = js ''{"type":"technical","role":"Frontend Engineer","level":"mid","specialtySkills":"React, CSS","amount":5,"userid":"u_123"}''\<rparr>,
           RouterRefresh]\<rparr>\<close>
proof -
  let ?A = "\<lparr>type = js ''technical'', role = js ''Frontend Engineer'', level = js ''mid'',
             specialtySkills = [js ''React'', js ''CSS''], amount = 5\<rparr>"
  let ?st = "mount\<lparr>formValues := ?A\<rparr>"
  let ?u = "Some \<lparr>user_id = js ''u_123''\<rparr>"
  let ?fetch = "\<lambda>req::request. Resolved \<lparr>status = 200\<rparr>"
  have good: "ok \<lparr>status = 200\<rparr>"
    by (simp add: ok_def)
  have h: "?fetch (generate_request ?u ?A) = Resolved \<lparr>status = 200\<rparr>"
    by simp
  have v: "issues (formValues ?st) = [] \<and> ?A = formValues ?st"
    by (simp add: issues_scenario_A)
  note t = successful_submission_resets [OF h good, where st = "?st"]
  from t v have "handleSubmit ?fetch ?u ?st =
      ?st\<lparr>formValues := \<lparr>type = [], role = [], level = [], specialtySkills = [], amount = 5\<rparr>,
              formErrors := [],
              effects := effects ?st @ [Fetch (generate_request ?u ?A), RouterRefresh]\<rparr>"
    by simp
  then show ?thesis
    using good by (simp add: generate_request_def scenario_A mount_def)
qed

subsection \<open>The skill list editor\<close>

lemma trim_CSS: "trim (js '' CSS '') = js ''CSS''" "trim (js ''CSS  '') = js ''CSS''"
  by (simp_all add: trim_def js_def isTrimmed_def isWhiteSpace_def isLineTerminator_def)

text \<open>
  Claim C6. \<open>handleAddSkill\<close> trims the staging text; when the result is not empty and
  not in the committed list, it is appended at the end and the staging text is cleared;
  otherwise nothing changes. Hence a second call changes nothing, also after the same
  text (up to trimming) has been typed again; the earlier elements keep their places and
  at most one element is added.
\<close>

theorem handleAddSkill_commits_once:
  "handleAddSkill st =
     (if trim (skillInput st) \<noteq> [] \<and> trim (skillInput st) \<notin> set (skills st)
      then st\<lparr>formValues :=
                 (formValues st)\<lparr>specialtySkills := skills st @ [trim (skillInput st)]\<rparr>,
              skillInput := []\<rparr>
      else st)
   \<and> handleAddSkill (handleAddSkill st) = handleAddSkill st
   \<and> (trim t = trim (skillInput st) \<longrightarrow>
        skills (handleAddSkill ((handleAddSkill st)\<lparr>skillInput := t\<rparr>)) =
        skills (handleAddSkill st))
   \<and> take (length (skills st)) (skills (handleAddSkill st)) = skills st
   \<and> length (skills (handleAddSkill st)) \<le> length (skills st) + 1"
proof -
  have blank: "trim [] = []"
    by (simp add: trim_def)
  have 1: "handleAddSkill st =
     (if trim (skillInput st) \<noteq> [] \<and> trim (skillInput st) \<notin> set (skills st)
      then st\<lparr>formValues :=
                 (formValues st)\<lparr>specialtySkills := skills st @ [trim (skillInput st)]\<rparr>,
              skillInput := []\<rparr>
      else st)" for st
    by (simp add: handleAddSkill_def Let_def array_includes_def)
  have 2: "handleAddSkill (handleAddSkill st) = handleAddSkill st"
    by (simp add: 1 blank)
  have 3: "trim t = trim (skillInput st) \<longrightarrow>
        skills (handleAddSkill ((handleAddSkill st)\<lparr>skillInput := t\<rparr>)) =
        skills (handleAddSkill st)"
    by (simp add: 1)
  have 4: "take (length (skills st)) (skills (handleAddSkill st)) = skills st
   \<and> length (skills (handleAddSkill st)) \<le> length (skills st) + 1"
    by (simp add: 1)
  from 1 [of st] 2 3 4 show ?thesis
    by blast
qed

theorem handleAddSkill_commits_once_witness:
  "handleAddSkill (mount\<lparr>formValues := defaultValues\<lparr>specialtySkills := [js ''React'']\<rparr>,
                         skillInput := js '' CSS ''\<rparr>) =
     mount\<lparr>formValues := defaultValues\<lparr>specialtySkills := [js ''React'', js ''CSS'']\<rparr>\<rparr>
   \<and> skills (handleAddSkill
        ((handleAddSkill (mount\<lparr>formValues := defaultValues\<lparr>specialtySkills := [js ''React'']\<rparr>,
                         skillInput := js '' CSS ''\<rparr>))\<lparr>skillInput := js ''CSS  ''\<rparr>)) =
     [js ''React'', js ''CSS'']"
proof -
  let ?st = "mount\<lparr>formValues := defaultValues\<lparr>specialtySkills := [js ''React'']\<rparr>,
                         skillInput := js '' CSS ''\<rparr>"
  have new: "js ''CSS'' \<noteq> js ''React''" "js ''CSS'' \<noteq> []"
    by (simp_all add: js_def)
  note t = handleAddSkill_commits_once [where st = "?st" and t = "js ''CSS  ''"]
  from t have a: "handleAddSkill ?st =
     (if trim (skillInput ?st) \<noteq> [] \<and> trim (skillInput ?st) \<notin> set (skills ?st)
      then ?st\<lparr>formValues :=
                 (formValues ?st)\<lparr>specialtySkills := skills ?st @ [trim (skillInput ?st)]\<rparr>,
              skillInput := []\<rparr>
      else ?st)"
    by blast
  have b: "handleAddSkill ?st =
      mount\<lparr>formValues := defaultValues\<lparr>specialtySkills := [js ''React'', js ''CSS'']\<rparr>\<rparr>"
    using new by (subst a) (simp add: trim_CSS mount_def)
  have again: "trim (js ''CSS  '') = trim (skillInput ?st)"
    by (simp add: trim_CSS)
  with t have "skills (handleAddSkill ((handleAddSkill ?st)\<lparr>skillInput := js ''CSS  ''\<rparr>)) =
        skills (handleAddSkill ?st)"
    by blast
  with b show ?thesis
    by simp
qed

text \<open>
  Claim C7. When every code unit of the staging text is white space or a line terminator
  (the empty text included), \<open>handleAddSkill\<close> changes nothing: neither the committed
  list nor the staging text.
\<close>

theorem blank_staging_text_is_ignored:
  assumes "\<forall>c \<in> set (skillInput st). isTrimmed c"
  shows "handleAddSkill st = st"
  using assms by (simp add: handleAddSkill_def trim_blank)

theorem blank_staging_text_is_ignored_witness:
  "handleAddSkill (mount\<lparr>formValues := defaultValues\<lparr>specialtySkills := [js ''React'']\<rparr>,
                         skillInput := [0x20, 0x09, 0x3000, 0x0A]\<rparr>) =
     mount\<lparr>formValues := defaultValues\<lparr>specialtySkills := [js ''React'']\<rparr>,
           skillInput := [0x20, 0x09, 0x3000, 0x0A]\<rparr>"
proof -
  have "\<forall>c \<in> set [0x20, 0x09, 0x3000, 0x0A :: code_unit]. isTrimmed c"
    by (simp add: isTrimmed_def isWhiteSpace_def isLineTerminator_def)
  then show ?thesis
    by (intro blank_staging_text_is_ignored) simp
qed

text \<open>
  Claim C8. \<open>handleRemoveSkill skill\<close> always yields a state, whose committed list is
  the old one without any occurrence of \<open>skill\<close>, the other elements in their order;
  when \<open>skill\<close> does not occur the state is unchanged.
\<close>

theorem handleRemoveSkill_removes_all:
  "handleRemoveSkill skill st =
     st\<lparr>formValues := (formValues st)\<lparr>specialtySkills := removeAll skill (skills st)\<rparr>\<rparr>
   \<and> skill \<notin> set (skills (handleRemoveSkill skill st))
   \<and> filter (\<lambda>s. s \<noteq> skill) (skills (handleRemoveSkill skill st)) =
       filter (\<lambda>s. s \<noteq> skill) (skills st)
   \<and> (skill \<notin> set (skills st) \<longrightarrow> handleRemoveSkill skill st = st)"
proof -
  have eq: "filter (\<lambda>s. s \<noteq> skill) xs = removeAll skill xs" for xs
    by (induction xs) auto
  have 1: "handleRemoveSkill skill st =
     st\<lparr>formValues := (formValues st)\<lparr>specialtySkills := removeAll skill (skills st)\<rparr>\<rparr>"
    by (simp add: handleRemoveSkill_def eq)
  have 2: "skill \<notin> set (skills (handleRemoveSkill skill st))"
    by (simp add: 1)
  have 3: "filter (\<lambda>s. s \<noteq> skill) (skills (handleRemoveSkill skill st)) =
       filter (\<lambda>s. s \<noteq> skill) (skills st)"
    by (simp add: handleRemoveSkill_def)
  have 4: "skill \<notin> set (skills st) \<longrightarrow> handleRemoveSkill skill st = st"
    by (simp add: 1)
  from 1 2 3 4 show ?thesis
    by blast
qed

theorem handleRemoveSkill_removes_all_witness:
  "handleRemoveSkill (js ''Go'')
     (mount\<lparr>formValues := defaultValues\<lparr>specialtySkills := [js ''React'', js ''CSS'']\<rparr>\<rparr>) =
     mount\<lparr>formValues := defaultValues\<lparr>specialtySkills := [js ''React'', js ''CSS'']\<rparr>\<rparr>
   \<and> handleRemoveSkill (js ''React'')
     (mount\<lparr>formValues := defaultValues\<lparr>specialtySkills := [js ''React'', js ''CSS'']\<rparr>\<rparr>) =
     mount\<lparr>formValues := defaultValues\<lparr>specialtySkills := [js ''CSS'']\<rparr>\<rparr>"
proof -
  let ?st = "mount\<lparr>formValues := defaultValues\<lparr>specialtySkills := [js ''React'', js ''CSS'']\<rparr>\<rparr>"
  have absent: "js ''Go'' \<notin> set (skills ?st)"
    by (simp add: js_def)
  have other: "js ''React'' \<noteq> js ''CSS''"
    by (simp add: js_def)
  from absent handleRemoveSkill_removes_all [where skill = "js ''Go''" and st = "?st"]
  have 1: "handleRemoveSkill (js ''Go'') ?st = ?st"
    by blast
  from handleRemoveSkill_removes_all [where skill = "js ''React''" and st = "?st"]
  have "handleRemoveSkill (js ''React'') ?st =
     ?st\<lparr>formValues := (formValues ?st)\<lparr>specialtySkills := removeAll (js ''React'') (skills ?st)\<rparr>\<rparr>"
    by blast
  then have 2: "handleRemoveSkill (js ''React'') ?st =
      mount\<lparr>formValues := defaultValues\<lparr>specialtySkills := [js ''CSS'']\<rparr>\<rparr>"
    using other by simp
  from 1 2 show ?thesis
    by simp
qed

subsection \<open>The invariant of the reachable states\<close>

lemma invariant_mount: "invariant mount"
  by (simp add: invariant_def mount_def defaultValues_def)

lemma invariant_handleAddSkill: "invariant st \<Longrightarrow> invariant (handleAddSkill st)"
  by (auto simp: invariant_def handleAddSkill_def Let_def array_includes_def)

lemma invariant_handleRemoveSkill: "invariant st \<Longrightarrow> invariant (handleRemoveSkill skill st)"
  by (simp add: invariant_def handleRemoveSkill_def)

lemma invariant_onSubmit: "invariant st \<Longrightarrow> invariant (onSubmit fetch u values st)"
  by (simp add: invariant_def onSubmit_def Let_def emit_def form_reset_def defaultValues_def
      split: fetch_result.splits)

lemma invariant_handleSubmit: "invariant st \<Longrightarrow> invariant (handleSubmit fetch u st)"
proof (cases "formSchema (formValues st)")
  case (Inl errs)
  assume "invariant st"
  with Inl show ?thesis
    by (simp add: handleSubmit_def invariant_def)
next
  case (Inr parsed)
  assume "invariant st"
  then have "invariant (st\<lparr>formErrors := []\<rparr>)"
    by (simp add: invariant_def)
  with Inr show ?thesis
    by (simp add: handleSubmit_def invariant_onSubmit)
qed

lemma invariant_fire:
  assumes "invariant st" and "enabled e st"
  shows "invariant (fire e st)"
proof (cases e)
  case (SelectType v)
  with assms show ?thesis by (simp add: invariant_def)
next
  case (ChangeRole v)
  with assms show ?thesis by (simp add: invariant_def)
next
  case (SelectLevel v)
  with assms show ?thesis by (simp add: invariant_def)
next
  case (ChangeSkillInput v)
  with assms show ?thesis by (simp add: invariant_def)
next
  case PressEnter
  with assms show ?thesis by (simp add: invariant_handleAddSkill)
next
  case ClickAdd
  with assms show ?thesis by (simp add: invariant_handleAddSkill)
next
  case (ClickRemove skill)
  with assms show ?thesis by (simp add: invariant_handleRemoveSkill)
next
  case (SelectAmount opt)
  with assms show ?thesis by (auto simp: invariant_def amountOptions_def)
next
  case (Submit u r)
  with assms show ?thesis by (simp add: invariant_handleSubmit)
qed

lemma invariant_run:
  "invariant st \<Longrightarrow> run es st = Some st' \<Longrightarrow> invariant st'"
proof (induction es arbitrary: st)
  case Nil
  then show ?case by simp
next
  case (Cons e es)
  from Cons.prems have en: "enabled e st" and rest: "run es (fire e st) = Some st'"
    by (simp_all split: if_splits)
  from Cons.prems(1) en have "invariant (fire e st)"
    by (rule invariant_fire)
  then show ?case
    using rest by (rule Cons.IH)
qed

text \<open>
  Claim C9. Every state reached from the mounted component by the events the form offers
  (selecting a type, a level or a question count, editing the role or the staging text,
  Enter and Add, the remove buttons, submitting with any user and any outcome of the
  request) has a committed skill list without the empty string and without duplicates,
  and a question count among 3, 5, 10, 15 and 20.
\<close>

theorem reachable_states_invariant:
  assumes "run es mount = Some st"
  shows "[] \<notin> set (skills st) \<and> distinct (skills st) \<and> amount (formValues st) \<in> {3, 5, 10, 15, 20}"
  using invariant_run [OF invariant_mount assms] by (simp add: invariant_def)

theorem reachable_states_invariant_witness:
  "run [ChangeSkillInput (js '' React ''), PressEnter,
        ChangeSkillInput (js ''React''), PressEnter,
        ChangeSkillInput (js ''CSS''), ClickAdd,
        SelectAmount 10, ClickRemove (js ''React''),
        Submit None (Resolved \<lparr>status = 503\<rparr>)] mount =
     Some \<lparr>formValues =
             \<lparr>type = [], role = [], level = [], specialtySkills = [js ''CSS''], amount = 10\<rparr>,
           formErrors =
             [Issue type_path too_small (Some required_message),
              Issue role_path too_small (Some required_message),
              Issue level_path too_small (Some required_message)],
           skillInput = [], effects = []\<rparr>
   \<and> [] \<notin> set [js ''CSS'']
   \<and> distinct [js ''CSS'']
   \<and> (10 :: int) \<in> {3, 5, 10, 15, 20}"
proof -
  let ?es = "[ChangeSkillInput (js '' React ''), PressEnter,
        ChangeSkillInput (js ''React''), PressEnter,
        ChangeSkillInput (js ''CSS''), ClickAdd,
        SelectAmount 10, ClickRemove (js ''React''),
        Submit None (Resolved \<lparr>status = 503\<rparr>)]"
  let ?st = "\<lparr>formValues =
             \<lparr>type = [], role = [], level = [], specialtySkills = [js ''CSS''], amount = 10\<rparr>,
           formErrors =
             [Issue type_path too_small (Some required_message),
              Issue role_path too_small (Some required_message),
              Issue level_path too_small (Some required_message)],
           skillInput = [], effects = []\<rparr>"
  have r: "run ?es mount = Some ?st"
    by (simp add: mount_def defaultValues_def handleAddSkill_def handleRemoveSkill_def
        handleSubmit_def formSchema_def issues_def string_min_def array_min_def
        literal_union_def amountLiterals_def amountOptions_def array_includes_def trim_def
        isTrimmed_def isWhiteSpace_def isLineTerminator_def js_def enumerate_eq_zip Let_def)
  from reachable_states_invariant [OF r] r show ?thesis
    by simp
qed

subsection \<open>The absent user\<close>

text \<open>
  Claim C10. Without a current user the payload object has the property \<open>userid\<close> with
  the value \<^verbatim>\<open>undefined\<close>, and the serialization leaves it out: the members are those
  of the object without that property, and the text ends after the question count. The
  text with a user is the same text with the \<open>userid\<close> member added before the closing
  brace, so the other members do not depend on the user.
\<close>

theorem no_userid_without_user:
  \<open>(js ''userid'', Undefined) \<in> set (payload None d)
   \<and> members (payload None d) =
       members (set_prop (spread d) (js ''specialtySkills'')
         (Str (join (js '', '') (specialtySkills d))))
   \<and> JSON_stringify (payload None d) =
       js ''{"type":'' @ QuoteJSONString (type d) @
       js '',"role":'' @ QuoteJSONString (role d) @
       js '',"level":'' @ QuoteJSONString (level d) @
       js '',"specialtySkills":'' @ QuoteJSONString (join (js '', '') (specialtySkills d)) @
       js '',"amount":'' @ Number_toString (amount d) @ js ''}''
   \<and> JSON_stringify (payload (Some usr) d) =
       butlast (JSON_stringify (payload None d)) @
       js '',"userid":'' @ QuoteJSONString (user_id usr) @ js ''}''\<close>
proof -
  have 1: "(js ''userid'', Undefined) \<in> set (payload None d)"
    by (simp add: payload_props optional_id_def)
  have 2: "members (payload None d) =
       members (set_prop (spread d) (js ''specialtySkills'')
         (Str (join (js '', '') (specialtySkills d))))"
    by (simp add: payload_props optional_id_def spread_def)
  have 3: \<open>JSON_stringify (payload None d) =
       js ''{"type":'' @ QuoteJSONString (type d) @
       js '',"role":'' @ QuoteJSONString (role d) @
       js '',"level":'' @ QuoteJSONString (level d) @
       js '',"specialtySkills":'' @ QuoteJSONString (join (js '', '') (specialtySkills d)) @
       js '',"amount":'' @ Number_toString (amount d) @ js ''}''\<close>
    by (simp add: payload_props JSON_stringify_def optional_id_def quote_key) (simp add: js_def)
  have 4: \<open>JSON_stringify (payload (Some usr) d) =
       butlast (JSON_stringify (payload None d)) @
       js '',"userid":'' @ QuoteJSONString (user_id usr) @ js ''}''\<close>
    unfolding 3 body_with_user by (simp add: js_def butlast_append)
  from 1 2 3 4 show ?thesis
    by blast
qed

theorem no_userid_without_user_witness:
  \<open>JSON_stringify (payload None
      \<lparr>type = js ''technical'', role = js ''Frontend Engineer'', level = js ''mid'',
       specialtySkills = [js ''React'', js ''CSS''], amount = 5\<rparr>) =
   js ''{"type":"technical","role":"Frontend Engineer","level":"mid","specialtySkills":"React, CSS","amount":5}''\<close>
proof -
  let ?A = "\<lparr>type = js ''technical'', role = js ''Frontend Engineer'', level = js ''mid'',
       specialtySkills = [js ''React'', js ''CSS''], amount = 5\<rparr>"
  from no_userid_without_user [of ?A]
  have \<open>JSON_stringify (payload None ?A) =
       js ''{"type":'' @ QuoteJSONString (type ?A) @
       js '',"role":'' @ QuoteJSONString (role ?A) @
       js '',"level":'' @ QuoteJSONString (level ?A) @
       js '',"specialtySkills":'' @ QuoteJSONString (join (js '', '') (specialtySkills ?A)) @
       js '',"amount":'' @ Number_toString (amount ?A) @ js ''}''\<close>
    by blast
  also have \<open>\<dots> = js ''{"type":"technical","role":"Frontend Engineer","level":"mid","specialtySkills":"React, CSS","amount":5}''\<close>
    by (simp add: QuoteJSONString_def js_def escape_unit_def isLeadingSurrogate_def
        isTrailingSurrogate_def Number_toString_def digits.simps)
  finally show ?thesis .
qed

end
